theory Spec2Isabelle
  imports Complex_Main "HOL-Library.Word"
begin

section \<open>JavaScript strings\<close>

text \<open>
  The backend (server.js) is JavaScript. A JavaScript string is a sequence of UTF-16 code
  units, and \<open>length\<close> counts code units, so a string is modelled as a list of 16-bit
  words. \<open>js\<close> turns an ASCII literal of HOL into such a string.
\<close>

type_synonym jschar = "16 word"
type_synonym jsstring = "jschar list"

definition js :: "string \<Rightarrow> jsstring" where
  "js s = map of_char s"

abbreviation LBRACKET :: jschar where "LBRACKET \<equiv> 0x5B"
abbreviation RBRACKET :: jschar where "RBRACKET \<equiv> 0x5D"
abbreviation STAR :: jschar where "STAR \<equiv> 0x2A"
abbreviation NL :: jschar where "NL \<equiv> 0x0A"

text \<open>
  The line terminators of ECMAScript: LF, CR, LS (U+2028), PS (U+2029). The regular
  expression atom \<open>.\<close> (without the s flag) matches every code unit but these.
\<close>

definition isLineTerminator :: "jschar \<Rightarrow> bool" where
  "isLineTerminator c = (c = 0x0A \<or> c = 0x0D \<or> c = 0x2028 \<or> c = 0x2029)"

text \<open>
  What \<open>String.prototype.trim\<close> strips: the WhiteSpace code points (TAB, VT, FF, SP,
  NBSP, ZWNBSP and the space separators of Unicode) and the line terminators.
\<close>

definition isWhiteSpace :: "jschar \<Rightarrow> bool" where
  "isWhiteSpace c =
     (c = 0x09 \<or> c = 0x0B \<or> c = 0x0C \<or> c = 0x20 \<or> c = 0xA0 \<or> c = 0x1680 \<or>
      (0x2000 \<le> c \<and> c \<le> 0x200A) \<or> c = 0x202F \<or> c = 0x205F \<or> c = 0x3000 \<or>
      c = 0xFEFF \<or> isLineTerminator c)"

definition trim :: "jsstring \<Rightarrow> jsstring" where
  "trim s = rev (dropWhile isWhiteSpace (rev (dropWhile isWhiteSpace s)))"



section \<open>The script sanitizer: cleanScript\<close>

text \<open>
  \<^verbatim>\<open>
  function cleanScript(script) {
    let cleaned = script
    cleaned = cleaned.replace(/\[.*?\]/g, '')
    cleaned = cleaned.replace(/\*\*/g, '')
    cleaned = cleaned.replace(/\n{3,}/g, '\n\n')
    cleaned = cleaned.trim()
    return cleaned
  }
  \<close>
  The two console.log calls of the source print lengths and have no effect on the result.

  A global replace scans the string from the left; at each position it either finds a
  match starting there, drops (or replaces) it and goes on after it, or keeps the code
  unit and moves one to the right.
\<close>

text \<open>
  After an opening bracket, the lazy \<open>.*?\<close> followed by a closing bracket matches up to
  the first closing bracket, provided no line terminator stands before it.
  \<open>closeBracket cs\<close> is the rest of the string after that match, if there is one.
\<close>

fun closeBracket :: "jsstring \<Rightarrow> jsstring option" where
  "closeBracket [] = None"
| "closeBracket (c # cs) =
     (if c = RBRACKET then Some cs
      else if isLineTerminator c then None
      else closeBracket cs)"

lemma closeBracket_length: "closeBracket cs = Some r \<Longrightarrow> length r < Suc (length cs)"
  by (induction cs) (auto split: if_splits)

text \<open>\<open>cleaned.replace(/\[.*?\]/g, '')\<close>\<close>

function removeBracketed :: "jsstring \<Rightarrow> jsstring" where
  "removeBracketed [] = []"
| "removeBracketed (c # cs) =
     (if c = LBRACKET then
        (case closeBracket cs of
           Some r \<Rightarrow> removeBracketed r
         | None \<Rightarrow> c # removeBracketed cs)
      else c # removeBracketed cs)"
  by pat_completeness auto
termination
  by (relation "measure length") (auto dest: closeBracket_length)

text \<open>\<open>cleaned.replace(/\*\*/g, '')\<close>\<close>

fun removeBold :: "jsstring \<Rightarrow> jsstring" where
  "removeBold (a # b # cs) =
     (if a = STAR \<and> b = STAR then removeBold cs else a # removeBold (b # cs))"
| "removeBold cs = cs"

text \<open>
  \<open>cleaned.replace(/\n{3,}/g, '\n\n')\<close>: the quantifier is greedy, so a match that
  starts with three line feeds takes the whole run of line feeds.
\<close>

function collapseNewlines :: "jsstring \<Rightarrow> jsstring" where
  "collapseNewlines [] = []"
| "collapseNewlines (c # cs) =
     (if take 3 (c # cs) = [NL, NL, NL]
      then NL # NL # collapseNewlines (dropWhile (\<lambda>x. x = NL) cs)
      else c # collapseNewlines cs)"
  by pat_completeness auto
termination
  by (relation "measure length") (auto simp: length_dropWhile_le less_Suc_eq_le)

definition cleanScript :: "jsstring \<Rightarrow> jsstring" where
  "cleanScript script = trim (collapseNewlines (removeBold (removeBracketed script)))"


subsection \<open>What a cleaned script no longer contains\<close>





section \<open>The server's world: files on disk and external capabilities\<close>

text \<open>
  The handlers of server.js read and write files and call three external capabilities:
  the OpenAI chat API (vision analysis and script drafting), the OpenAI speech API, and
  the ffmpeg executable through \<open>execPromise\<close>. The model passes the state of the disk
  explicitly and records every external call, and every wait, in a trace.
\<close>

text \<open>
  The files the handlers touch, by the expression that builds the path:
  \<^item> \<open>Upload name\<close>: \<open>path.join(__dirname, 'uploads', name)\<close>, the \<open>path\<close> of a file
    stored by multer (\<open>name\<close> is its \<open>filename\<close>, the time of upload, a dash and the
    original name);
  \<^item> \<open>Voice ts\<close>: \<open>output/voice-${timestamp}.mp3\<close>;
  \<^item> \<open>Clip ts i\<close>: \<open>output/clip-${timestamp}-${i}.mp4\<close>;
  \<^item> \<open>ConcatList ts\<close>: \<open>output/concat-${timestamp}.txt\<close>;
  \<^item> \<open>VideoNoAudio ts\<close>: \<open>output/video-no-audio-${timestamp}.mp4\<close>;
  \<^item> \<open>Final ts\<close>: \<open>output/ad-${timestamp}.mp4\<close>;
  \<^item> \<open>VoiceoverOut ts\<close>: \<open>output/voiceover-${timestamp}.mp3\<close>;
  \<^item> \<open>Music name\<close>: \<open>path.join(__dirname, 'music', name)\<close>.
\<close>

datatype path =
    Upload jsstring
  | Voice nat
  | Clip nat nat
  | ConcatList nat
  | VideoNoAudio nat
  | Final nat
  | VoiceoverOut nat
  | Music jsstring

text \<open>A file as multer hands it to a handler (\<open>req.file\<close>, \<open>req.files[i]\<close>).\<close>

record upfile =
  originalname :: jsstring
  filename :: jsstring

definition filePath :: "upfile \<Rightarrow> path" where
  "filePath f = Upload (filename f)"

text \<open>
  The four command lines the video handler builds, by their template:
  \<^item> \<open>CreateClip img t width height clip\<close>:
    \<open>ffmpeg -loop 1 -i "img" -t t -vf "scale=width:height:...,pad=width:height:..."
    -r 30 -c:v libx264 -pix_fmt yuv420p "clip"\<close>;
  \<^item> \<open>Concat manifest entries out\<close>:
    \<open>ffmpeg -f concat -safe 0 -i "manifest" -c copy "out"\<close>, where \<open>entries\<close> are the
    clip paths the handler has just written into the manifest, one \<open>file '...'\<close> line each;
  \<^item> \<open>MixMusic video music voice volume fadeStart out\<close>:
    \<open>ffmpeg -i "video" -stream_loop -1 -i "music" -i "voice" -filter_complex
    "[1:a]volume=volume,afade=t=out:st=fadeStart:d=3[music];[2:a]volume=1.0[voice];
    [music][voice]amix=inputs=2:duration=shortest:dropout_transition=2[aout]"
    -map 0:v -map "[aout]" -c:v copy -c:a aac -shortest "out"\<close>;
  \<^item> \<open>VoiceOnly video voice out\<close>:
    \<open>ffmpeg -i "video" -i "voice" -c:v copy -c:a aac -shortest "out"\<close>.
  JavaScript numbers are doubles; the model keeps the exact rational a division denotes.
\<close>

datatype ffmpeg_cmd =
    CreateClip path rat nat nat path
  | Concat path "path list" path
  | MixMusic path path path rat int path
  | VoiceOnly path path path

text \<open>The \<open>-i\<close> arguments of a command line, in order.\<close>

fun inputsOf :: "ffmpeg_cmd \<Rightarrow> path list" where
  "inputsOf (CreateClip img t width height clip) = [img]"
| "inputsOf (Concat manifest entries out) = [manifest]"
| "inputsOf (MixMusic video music voice volume fadeStart out) = [video, music, voice]"
| "inputsOf (VoiceOnly video voice out) = [video, voice]"

text \<open>The file a command line writes: its last argument.\<close>

fun outputOf :: "ffmpeg_cmd \<Rightarrow> path" where
  "outputOf (CreateClip img t width height clip) = clip"
| "outputOf (Concat manifest entries out) = out"
| "outputOf (MixMusic video music voice volume fadeStart out) = out"
| "outputOf (VoiceOnly video voice out) = out"

text \<open>
  The audio filters of the \<open>-filter_complex\<close> argument of a command line, each with the
  stream it is applied to (\<open>[1:a]\<close> is the second input, \<open>[2:a]\<close> the third); a command
  line without that argument has none.
\<close>

datatype audio_filter =
    VolumeOf nat rat
  | AFadeOut nat int nat
  | AMix nat

fun filtersOf :: "ffmpeg_cmd \<Rightarrow> audio_filter list" where
  "filtersOf (MixMusic video music voice volume fadeStart out) =
     [VolumeOf 1 volume, AFadeOut 1 fadeStart 3, VolumeOf 2 1, AMix 2]"
| "filtersOf c = []"

datatype error =
    TypeError
  | NoFileUploaded
  | FileNotFound
  | AnalysisError nat
  | DraftError
  | SynthesisError
  | MediaToolError ffmpeg_cmd
  | ENOENT

datatype event =
    VisionCall nat
  | Wait nat
  | DraftCall jsstring jsstring
  | SpeechCall jsstring jsstring
  | ExecCall ffmpeg_cmd

text \<open>
  What lies outside the server:
  \<^item> \<open>timestamp\<close>: the value of \<open>Date.now()\<close> in the request;
  \<^item> \<open>vision n\<close>: the outcome of the n-th call of the vision model in a request, the
    text of the answer or \<open>None\<close> when the call throws;
  \<^item> \<open>draft analysisText niche\<close>: the outcome of the drafting call, likewise;
  \<^item> \<open>speech text voice\<close>: whether the speech call returns audio;
  \<^item> \<open>exec cmd disk\<close>: whether ffmpeg exits with status 0, and the files on disk after
    it ran.
\<close>

record world =
  timestamp :: nat
  vision :: "nat \<Rightarrow> jsstring option"
  draft :: "jsstring \<Rightarrow> jsstring \<Rightarrow> jsstring option"
  speech :: "jsstring \<Rightarrow> jsstring \<Rightarrow> bool"
  exec :: "ffmpeg_cmd \<Rightarrow> path set \<Rightarrow> bool \<times> path set"

record run_state =
  disk :: "path set"
  trace :: "event list"

text \<open>\<open>await execPromise(cmd)\<close>: one call; a non-zero exit status rejects.\<close>

definition execCall :: "world \<Rightarrow> ffmpeg_cmd \<Rightarrow> run_state \<Rightarrow> run_state \<times> (error + unit)" where
  "execCall w cmd st =
     (case exec w cmd (disk st) of
        (ok, d) \<Rightarrow>
          (\<lparr>disk = d, trace = trace st @ [ExecCall cmd]\<rparr>,
           if ok then Inr () else Inl (MediaToolError cmd)))"

text \<open>\<open>if (fs.existsSync(p)) fs.unlinkSync(p)\<close>, for one path and for each path of a list.\<close>

definition unlinkIfExists :: "path \<Rightarrow> run_state \<Rightarrow> run_state" where
  "unlinkIfExists p st = (if p \<in> disk st then st\<lparr>disk := disk st - {p}\<rparr> else st)"

definition unlinkAll :: "path list \<Rightarrow> run_state \<Rightarrow> run_state" where
  "unlinkAll ps st = fold unlinkIfExists ps st"

definition writeFile :: "path \<Rightarrow> run_state \<Rightarrow> run_state" where
  "writeFile p st = st\<lparr>disk := insert p (disk st)\<rparr>"


section \<open>Values of a JSON request body\<close>

text \<open>
  \<open>/api/generate-script\<close> and \<open>/api/generate-voiceover\<close> read a JSON body, so a field
  can hold any JSON value or be absent. \<open>JObject\<close> stands for an object or an array.
  A text field of a multipart form (the video request) is a string or absent.
\<close>

datatype jsvalue =
    JUndefined
  | JNull
  | JBool bool
  | JNumber rat
  | JString jsstring
  | JObject

fun truthy :: "jsvalue \<Rightarrow> bool" where
  "truthy JUndefined = False"
| "truthy JNull = False"
| "truthy (JBool b) = b"
| "truthy (JNumber n) = (n \<noteq> 0)"
| "truthy (JString s) = (s \<noteq> [])"
| "truthy JObject = True"


section \<open>Estimated speech duration\<close>

text \<open>
  \<open>Math.ceil(n / 15)\<close> for a string length \<open>n\<close>. (The double nearest to n / 15 has the
  same ceiling as the exact quotient for every length a string can have.)
\<close>

definition ceilBy15 :: "nat \<Rightarrow> nat" where
  "ceilBy15 n = nat \<lceil>(of_nat n :: rat) / 15\<rceil>"

text \<open>
  In \<open>/api/generate-video\<close>:
  \<open>const estimatedDuration = Math.max(10, Math.ceil(cleanedScript.length / 15))\<close>
\<close>

definition estimatedDuration :: "jsstring \<Rightarrow> nat" where
  "estimatedDuration cleanedScript = max 10 (ceilBy15 (length cleanedScript))"


section \<open>/api/analyze-image\<close>

text \<open>
  \<^verbatim>\<open>
  let response
  let retries = 3
  let lastError
  for (let attempt = 1; attempt <= retries; attempt++) {
    try {
      response = await openai.chat.completions.create({...})
      break // Success! Exit retry loop
    } catch (error) {
      lastError = error
      if (attempt < retries) {
        const waitTime = 1000 * attempt // 1s, 2s, 3s
        await new Promise(resolve => setTimeout(resolve, waitTime))
      }
    }
  }
  if (!response) {
    throw lastError // All retries failed
  }
  \<close>
  \<open>retryLoop\<close> returns the trace, the response if there is one, and the attempt whose
  error is \<open>lastError\<close> (0 while no attempt has failed).
\<close>

function retryLoop ::
  "(nat \<Rightarrow> jsstring option) \<Rightarrow> nat \<Rightarrow> nat \<Rightarrow> nat \<Rightarrow> event list
     \<Rightarrow> event list \<times> jsstring option \<times> nat" where
  "retryLoop call retries attempt lastError tr =
     (if attempt \<le> retries then
        (case call attempt of
           Some response \<Rightarrow> (tr @ [VisionCall attempt], Some response, lastError)
         | None \<Rightarrow>
             retryLoop call retries (attempt + 1) attempt
               (if attempt < retries
                then tr @ [VisionCall attempt, Wait (1000 * attempt)]
                else tr @ [VisionCall attempt]))
      else (tr, None, lastError))"
  by pat_completeness auto
termination
  by (relation "measure (\<lambda>(call, retries, attempt, lastError, tr). Suc retries - attempt)") auto

declare retryLoop.simps [simp del]

record analyze_request =
  reqFile :: "upfile option"
  category :: "jsstring option"

datatype analyze_response =
    AnalyzeOk jsstring jsstring
  | AnalyzeFailed error

text \<open>
  The handler: no file, or a file that is not on disk, throws before anything is read;
  building the prompt calls \<open>category.replace\<close>, which throws when the field is absent;
  then the retry loop runs. Both the success path and the catch block unlink the uploaded
  file if it exists. (The prompt text and the feature keywords extracted from the answer
  are not modelled.)
\<close>

definition analyzeImage :: "world \<Rightarrow> analyze_request \<Rightarrow> run_state \<Rightarrow> run_state \<times> analyze_response" where
  "analyzeImage w req st =
     (case reqFile req of
        None \<Rightarrow> (st, AnalyzeFailed NoFileUploaded)
      | Some f \<Rightarrow>
          if filePath f \<notin> disk st then (st, AnalyzeFailed FileNotFound)
          else
            (case category req of
               None \<Rightarrow> (unlinkIfExists (filePath f) st, AnalyzeFailed TypeError)
             | Some c \<Rightarrow>
                 (case retryLoop (vision w) 3 1 0 (trace st) of
                    (tr, None, lastError) \<Rightarrow>
                      (unlinkIfExists (filePath f) (st\<lparr>trace := tr\<rparr>),
                       AnalyzeFailed (AnalysisError lastError))
                  | (tr, Some analysis, lastError) \<Rightarrow>
                      (unlinkIfExists (filePath f) (st\<lparr>trace := tr\<rparr>),
                       AnalyzeOk analysis c))))"


section \<open>/api/generate-script\<close>

text \<open>
  \<^verbatim>\<open>
  const { niche, imageAnalysis, userScript } = req.body
  if (userScript && userScript.trim()) {
    return res.json({ script: userScript })
  }
  const analysisText = Object.entries(imageAnalysis)
    .map(([fileName, data]) => { return `${data.category}: ${data.description}` })
    .join('\n\n')
  const prompt = `... ${niche} ... ${analysisText} ...`
  const response = await openai.chat.completions.create({...})
  const script = response.choices[0].message.content.trim()
  res.json({ script })
  \<close>
  with a catch block that answers 500. \<open>imageAnalysis\<close> is \<open>None\<close> when the field is
  absent or null (\<open>Object.entries\<close> throws), else its entries; the data of an entry is
  \<open>None\<close> when it is null (\<open>data.category\<close> throws), else the texts that the template
  prints for its category and description. \<open>niche\<close> is the text the template prints.
\<close>

record script_request =
  niche :: jsstring
  imageAnalysis :: "(jsstring \<times> (jsstring \<times> jsstring) option) list option"
  userScript :: jsvalue

datatype script_response =
    ScriptOk jsvalue
  | ScriptFailed error

text \<open>\<open>userScript.trim()\<close>: only a string has the method.\<close>

definition trimValue :: "jsvalue \<Rightarrow> error + jsstring" where
  "trimValue v = (case v of JString s \<Rightarrow> Inr (trim s) | _ \<Rightarrow> Inl TypeError)"

fun joinWith :: "jsstring \<Rightarrow> jsstring list \<Rightarrow> jsstring" where
  "joinWith sep [] = []"
| "joinWith sep [x] = x"
| "joinWith sep (x # y # ys) = x @ sep @ joinWith sep (y # ys)"

definition analysisTextOf ::
  "(jsstring \<times> (jsstring \<times> jsstring) option) list option \<Rightarrow> error + jsstring" where
  "analysisTextOf a =
     (case a of
        None \<Rightarrow> Inl TypeError
      | Some entries \<Rightarrow>
          if list_ex (\<lambda>(fileName, d). d = None) entries then Inl TypeError
          else Inr (joinWith [NL, NL]
                 (map (\<lambda>(fileName, d). case d of
                         Some (cat, description) \<Rightarrow> cat @ js '': '' @ description
                       | None \<Rightarrow> [])
                    entries)))"

definition draftScript :: "world \<Rightarrow> script_request \<Rightarrow> event list \<times> script_response" where
  "draftScript w req =
     (case analysisTextOf (imageAnalysis req) of
        Inl e \<Rightarrow> ([], ScriptFailed e)
      | Inr analysisText \<Rightarrow>
          (case draft w analysisText (niche req) of
             None \<Rightarrow> ([DraftCall analysisText (niche req)], ScriptFailed DraftError)
           | Some content \<Rightarrow>
               ([DraftCall analysisText (niche req)], ScriptOk (JString (trim content)))))"

definition generateScript :: "world \<Rightarrow> script_request \<Rightarrow> event list \<times> script_response" where
  "generateScript w req =
     (if truthy (userScript req) then
        (case trimValue (userScript req) of
           Inl e \<Rightarrow> ([], ScriptFailed e)
         | Inr trimmed \<Rightarrow>
             if trimmed \<noteq> [] then ([], ScriptOk (userScript req))
             else draftScript w req)
      else draftScript w req)"


section \<open>/api/generate-voiceover\<close>

text \<open>
  \<^verbatim>\<open>
  const { script, voice } = req.body
  if (!script) { return res.status(400).json({ error: 'Script is required' }) }
  const cleanedScript = cleanScript(script)
  const mp3Response = await openai.audio.speech.create({
    model: 'tts-1', voice: voice || 'alloy', input: cleanedScript, speed: 1.0 })
  ...
  fs.writeFileSync(audioPath, buffer)
  res.json({ ..., audioFile: `voiceover-${timestamp}.mp3`,
             duration: Math.ceil(script.length / 15), ... })
  \<close>
  with a catch block that answers 500. A script that is not a string has no
  \<open>replace\<close> method, so cleanScript throws.
\<close>

record voiceover_request =
  vo_script :: jsvalue
  vo_voice :: "jsstring option"

datatype voiceover_response =
    VoiceoverOk path nat
  | VoiceoverBadRequest
  | VoiceoverFailed error

text \<open>\<open>voice || 'alloy'\<close>\<close>

definition voiceOrDefault :: "jsstring option \<Rightarrow> jsstring" where
  "voiceOrDefault v = (case v of None \<Rightarrow> js ''alloy'' | Some x \<Rightarrow> if x = [] then js ''alloy'' else x)"

definition generateVoiceover ::
  "world \<Rightarrow> voiceover_request \<Rightarrow> run_state \<Rightarrow> run_state \<times> voiceover_response" where
  "generateVoiceover w req st =
     (if \<not> truthy (vo_script req) then (st, VoiceoverBadRequest)
      else
        (case vo_script req of
           JString script \<Rightarrow>
             (let cleanedScript = cleanScript script;
                  st1 = st\<lparr>trace := trace st @ [SpeechCall cleanedScript (voiceOrDefault (vo_voice req))]\<rparr>
              in if \<not> speech w cleanedScript (voiceOrDefault (vo_voice req))
                 then (st1, VoiceoverFailed SynthesisError)
                 else (writeFile (VoiceoverOut (timestamp w)) st1,
                       VoiceoverOk (VoiceoverOut (timestamp w)) (ceilBy15 (length script))))
         | _ \<Rightarrow> (st, VoiceoverFailed TypeError)))"


section \<open>/api/generate-video\<close>

subsection \<open>The music volume\<close>

text \<open>
  \<open>parseInt(string)\<close> with no radix: skip leading white space, read a sign, read the
  prefix 0x or 0X (then the radix is 16, else 10), and take the longest run of digits of
  the radix; \<open>None\<close> is NaN, the result when that run is empty. (The model returns the
  exact integer; the source rounds a value beyond 2^53 to a double.)
\<close>

definition digitValue :: "jschar \<Rightarrow> nat" where
  "digitValue c =
     (if 0x30 \<le> c \<and> c \<le> 0x39 then unat c - 48
      else if 0x61 \<le> c \<and> c \<le> 0x7A then unat c - 87
      else if 0x41 \<le> c \<and> c \<le> 0x5A then unat c - 55
      else 36)"

definition parseInt :: "jsstring \<Rightarrow> int option" where
  "parseInt inputString =
     (let s0 = dropWhile isWhiteSpace inputString;
          negative = (take 1 s0 = js ''-'');
          s1 = (if take 1 s0 = js ''-'' \<or> take 1 s0 = js ''+'' then drop 1 s0 else s0);
          hex = (take 2 s1 = js ''0x'' \<or> take 2 s1 = js ''0X'');
          R = (if hex then 16 else 10);
          s2 = (if hex then drop 2 s1 else s1);
          z = takeWhile (\<lambda>c. digitValue c < R) s2;
          mathInt = foldl (\<lambda>acc c. acc * R + digitValue c) 0 z
      in if z = [] then None
         else Some (if negative then - int mathInt else int mathInt))"

text \<open>
  \<open>const volumeDecimal = (parseInt(musicVolume) || 15) / 100\<close>.
  An absent field is \<open>undefined\<close>, which parseInt reads as the string "undefined".
  NaN and 0 are falsy, so both give 15.
\<close>

definition volumeDecimal :: "jsstring option \<Rightarrow> rat" where
  "volumeDecimal musicVolume =
     (let parsed = (case musicVolume of
                      None \<Rightarrow> parseInt (js ''undefined'')
                    | Some v \<Rightarrow> parseInt v);
          percent = (case parsed of
                       None \<Rightarrow> 15
                     | Some n \<Rightarrow> if n = 0 then 15 else n)
      in of_int percent / 100)"

subsection \<open>The audio command\<close>

text \<open>
  \<^verbatim>\<open>
  const musicFiles = { 'upbeat': 'upbeat.mp3', 'corporate': 'corporate.mp3',
                       'calm': 'calm.mp3', 'inspiring': 'inspiring.mp3' }
  const musicPath = path.join(musicDir, musicFiles[music] || 'upbeat.mp3')
  \<close>
  \<open>musicFiles\<close> is an object literal, so a lookup of a property name of
  \<open>Object.prototype\<close> finds an inherited function or object, which is truthy and not a
  string: \<open>path.join\<close> throws a TypeError on it.
\<close>

definition musicFiles :: "(jsstring \<times> jsstring) list" where
  "musicFiles =
     [(js ''upbeat'', js ''upbeat.mp3''),
      (js ''corporate'', js ''corporate.mp3''),
      (js ''calm'', js ''calm.mp3''),
      (js ''inspiring'', js ''inspiring.mp3'')]"

definition objectPrototypeKeys :: "jsstring list" where
  "objectPrototypeKeys =
     [js ''constructor'', js ''hasOwnProperty'', js ''isPrototypeOf'',
      js ''propertyIsEnumerable'', js ''toLocaleString'', js ''toString'', js ''valueOf'',
      js ''__proto__'', js ''__defineGetter__'', js ''__defineSetter__'',
      js ''__lookupGetter__'', js ''__lookupSetter__'']"

definition musicFileName :: "jsstring \<Rightarrow> error + jsstring" where
  "musicFileName m =
     (case map_of musicFiles m of
        Some f \<Rightarrow> Inr f
      | None \<Rightarrow> if m \<in> set objectPrototypeKeys then Inl TypeError else Inr (js ''upbeat.mp3''))"

text \<open>
  \<^verbatim>\<open>
  if (music && music !== 'none') {
    ...
    if (fs.existsSync(musicPath)) {
      const volumeDecimal = (parseInt(musicVolume) || 15) / 100
      ffmpegAddAudio = `ffmpeg -i "${videoNoAudioPath}" -stream_loop -1 -i "${musicPath}" ...`
    } else {
      ffmpegAddAudio = `ffmpeg -i "${videoNoAudioPath}" -i "${voiceoverPath}" ...`
    }
  } else {
    ffmpegAddAudio = `ffmpeg -i "${videoNoAudioPath}" -i "${voiceoverPath}" ...`
  }
  \<close>
\<close>

definition audioCommand ::
  "path set \<Rightarrow> nat \<Rightarrow> nat \<Rightarrow> jsstring option \<Rightarrow> jsstring option \<Rightarrow> error + ffmpeg_cmd" where
  "audioCommand d ts est music musicVolume =
     (case music of
        None \<Rightarrow> Inr (VoiceOnly (VideoNoAudio ts) (Voice ts) (Final ts))
      | Some m \<Rightarrow>
          if m \<noteq> [] \<and> m \<noteq> js ''none'' then
            (case musicFileName m of
               Inl e \<Rightarrow> Inl e
             | Inr f \<Rightarrow>
                 if Music f \<in> d
                 then Inr (MixMusic (VideoNoAudio ts) (Music f) (Voice ts)
                             (volumeDecimal musicVolume) (int est - 3) (Final ts))
                 else Inr (VoiceOnly (VideoNoAudio ts) (Voice ts) (Final ts)))
          else Inr (VoiceOnly (VideoNoAudio ts) (Voice ts) (Final ts)))"

subsection \<open>The handler\<close>

record video_request =
  files :: "upfile list option"
  script :: "jsstring option"
  voice :: "jsstring option"
  music :: "jsstring option"
  musicVolume :: "jsstring option"
  aspectRatio :: "jsstring option"

record video_response =
  videoFile :: path
  duration :: nat

datatype video_result =
    VideoOk video_response
  | VideoFailed error

text \<open>
  \<open>let width = 1920, height = 1080\<close>, changed for the aspect ratios 9:16 and 1:1.
\<close>

definition resolution :: "jsstring option \<Rightarrow> nat \<times> nat" where
  "resolution ar =
     (if ar = Some (js ''9:16'') then (1080, 1920)
      else if ar = Some (js ''1:1'') then (1080, 1080)
      else (1920, 1080))"

text \<open>
  \<^verbatim>\<open>
  const videoClips = []
  for (let i = 0; i < req.files.length; i++) {
    const clipPath = path.join(outputDir, `clip-${timestamp}-${i}.mp4`)
    const imagePath = req.files[i].path
    const createClipCmd = `ffmpeg -loop 1 -i "${imagePath}" -t ${durationPerImage} ...`
    await execPromise(createClipCmd)
    videoClips.push(clipPath)
  }
  \<close>
  \<open>buildClips\<close> is the loop from index \<open>i\<close> on, over the files not yet handled; it
  returns the clip paths pushed from there on, or the error of the first command that
  fails.
\<close>

fun buildClips ::
  "world \<Rightarrow> nat \<Rightarrow> rat \<Rightarrow> nat \<Rightarrow> nat \<Rightarrow> nat \<Rightarrow> upfile list \<Rightarrow> run_state
     \<Rightarrow> run_state \<times> (error + path list)" where
  "buildClips w ts durationPerImage width height i [] st = (st, Inr [])"
| "buildClips w ts durationPerImage width height i (f # rest) st =
     (case execCall w (CreateClip (filePath f) durationPerImage width height (Clip ts i)) st of
        (st1, Inl e) \<Rightarrow> (st1, Inl e)
      | (st1, Inr u) \<Rightarrow>
          (case buildClips w ts durationPerImage width height (Suc i) rest st1 of
             (st2, Inl e) \<Rightarrow> (st2, Inl e)
           | (st2, Inr clips) \<Rightarrow> (st2, Inr (Clip ts i # clips))))"

text \<open>
  The body of the try block. The steps, in the order of the source:
  \<^enum> \<open>req.files.length\<close> throws when the request carried no multipart body;
  \<^enum> \<open>cleanScript(script)\<close> throws when the script field is absent;
  \<^enum> the speech call, then the voiceover file is written;
  \<^enum> \<open>estimatedDuration\<close> and \<open>durationPerImage = estimatedDuration / req.files.length\<close>
    (used only inside the clip loop, which does not run for an empty list);
  \<^enum> the clip loop;
  \<^enum> the manifest is written and the clips are concatenated;
  \<^enum> the clip files and the manifest are unlinked;
  \<^enum> the audio command is chosen and run;
  \<^enum> the silent video, the voiceover and the uploaded images are unlinked;
  \<^enum> \<open>fs.statSync(finalVideoPath)\<close> throws when the final file does not exist;
  \<^enum> the response.
\<close>

definition generateVideoBody ::
  "world \<Rightarrow> video_request \<Rightarrow> run_state \<Rightarrow> run_state \<times> (error + video_response)" where
  "generateVideoBody w req st =
     (case files req of
        None \<Rightarrow> (st, Inl TypeError)
      | Some fs \<Rightarrow>
     (case script req of
        None \<Rightarrow> (st, Inl TypeError)
      | Some s \<Rightarrow>
     (let ts = timestamp w;
          cleanedScript = cleanScript s;
          st1 = st\<lparr>trace := trace st @ [SpeechCall cleanedScript (voiceOrDefault (voice req))]\<rparr>
      in if \<not> speech w cleanedScript (voiceOrDefault (voice req)) then (st1, Inl SynthesisError)
         else
     (let st2 = writeFile (Voice ts) st1;
          est = estimatedDuration cleanedScript;
          durationPerImage = of_nat est / of_nat (length fs);
          width = fst (resolution (aspectRatio req));
          height = snd (resolution (aspectRatio req))
      in case buildClips w ts durationPerImage width height 0 fs st2 of
           (st3, Inl e) \<Rightarrow> (st3, Inl e)
         | (st3, Inr videoClips) \<Rightarrow>
     (case execCall w (Concat (ConcatList ts) videoClips (VideoNoAudio ts))
             (writeFile (ConcatList ts) st3) of
        (st4, Inl e) \<Rightarrow> (st4, Inl e)
      | (st4, Inr u) \<Rightarrow>
     (let st5 = unlinkIfExists (ConcatList ts) (unlinkAll videoClips st4)
      in case audioCommand (disk st5) ts est (music req) (musicVolume req) of
           Inl e \<Rightarrow> (st5, Inl e)
         | Inr ffmpegAddAudio \<Rightarrow>
     (case execCall w ffmpegAddAudio st5 of
        (st6, Inl e) \<Rightarrow> (st6, Inl e)
      | (st6, Inr u) \<Rightarrow>
     (let st7 = unlinkAll (map filePath fs)
                  (unlinkIfExists (Voice ts) (unlinkIfExists (VideoNoAudio ts) st6))
      in if Final ts \<notin> disk st7 then (st7, Inl ENOENT)
         else (st7, Inr \<lparr>videoFile = Final ts, duration = est\<rparr>)))))))))"

text \<open>
  The handler with its catch block:
  \<^verbatim>\<open>
  } catch (error) {
    // Cleanup on error
    if (req.files) {
      req.files.forEach(file => {
        if (fs.existsSync(file.path)) { fs.unlinkSync(file.path) }
      })
    }
    res.status(500).json({ error: 'Failed to generate video', details: error.message })
  }
  \<close>
\<close>

definition generateVideo ::
  "world \<Rightarrow> video_request \<Rightarrow> path set \<Rightarrow> run_state \<times> video_result" where
  "generateVideo w req d =
     (case generateVideoBody w req \<lparr>disk = d, trace = []\<rparr> of
        (st, Inr r) \<Rightarrow> (st, VideoOk r)
      | (st, Inl e) \<Rightarrow>
          (case files req of
             None \<Rightarrow> (st, VideoFailed e)
           | Some fs \<Rightarrow> (unlinkAll (map filePath fs) st, VideoFailed e)))"


section \<open>The trace of a video request\<close>


text \<open>The clip commands the loop issues from index \<open>i\<close> on when none of them fails.\<close>

fun clipCommands :: "nat \<Rightarrow> rat \<Rightarrow> nat \<Rightarrow> nat \<Rightarrow> nat \<Rightarrow> upfile list \<Rightarrow> ffmpeg_cmd list" where
  "clipCommands ts t width height i [] = []"
| "clipCommands ts t width height i (f # rest) =
     CreateClip (filePath f) t width height (Clip ts i)
       # clipCommands ts t width height (Suc i) rest"

section \<open>Concrete worlds and requests\<close>

text \<open>
  A world in which every external call succeeds, and ffmpeg writes its output file.
\<close>

definition okWorld :: world where
  "okWorld =
     \<lparr>timestamp = 1,
      vision = (\<lambda>n. Some (js ''A bright kitchen'')),
      draft = (\<lambda>analysisText n. Some (js ''Come and see'')),
      speech = (\<lambda>text v. True),
      exec = (\<lambda>cmd d. (True, insert (outputOf cmd) d))\<rparr>"

text \<open>Two uploaded images, a request and the script of the spec's example.\<close>

definition kitchenFile :: upfile where
  "kitchenFile = \<lparr>originalname = js ''kitchen.jpg'', filename = js ''1-kitchen.jpg''\<rparr>"

definition bedroomFile :: upfile where
  "bedroomFile = \<lparr>originalname = js ''bedroom.jpg'', filename = js ''2-bedroom.jpg''\<rparr>"

definition specScript :: jsstring where
  "specScript =
     js ''Our beautiful kitchen features granite counters. The bedroom is a peaceful retreat.''"

definition demoRequest :: "upfile list \<Rightarrow> jsstring \<Rightarrow> jsstring option \<Rightarrow> video_request" where
  "demoRequest fs s m =
     \<lparr>files = Some fs, script = Some s, voice = None, music = m,
      musicVolume = Some (js ''50''), aspectRatio = None\<rparr>"

text \<open>
  A world in which ffmpeg fails on the second clip (and leaves the disk as it was), and a
  world in which every external call fails.
\<close>

definition clipFailWorld :: world where
  "clipFailWorld =
     okWorld\<lparr>exec := (\<lambda>cmd d. if outputOf cmd = Clip 1 1 then (False, d)
                                else (True, insert (outputOf cmd) d))\<rparr>"

definition allFailWorld :: world where
  "allFailWorld =
     \<lparr>timestamp = 1,
      vision = (\<lambda>n. None),
      draft = (\<lambda>analysisText n. None),
      speech = (\<lambda>text v. False),
      exec = (\<lambda>cmd d. (False, d))\<rparr>"

definition analyzeRequest :: analyze_request where
  "analyzeRequest = \<lparr>reqFile = Some kitchenFile, category = Some (js ''kitchen'')\<rparr>"

text \<open>A request for a script, with one analysed image.\<close>

definition scriptRequest :: "jsvalue \<Rightarrow> script_request" where
  "scriptRequest u =
     \<lparr>niche = js ''real-estate'',
      imageAnalysis = Some [(js ''kitchen.jpg'', Some (js ''kitchen'', js ''Granite counters''))],
      userScript = u\<rparr>"


section \<open>The ordering rule of the spec\<close>





section \<open>Properties of the sanitizer\<close>

lemma isLineTerminator_simps [simp]:
  "\<not> isLineTerminator LBRACKET" "\<not> isLineTerminator RBRACKET" "\<not> isLineTerminator STAR"
  "isLineTerminator NL"
  by (simp_all add: isLineTerminator_def)
























subsection \<open>Trimming keeps the three properties\<close>




















lemmas js_eval = js_def trim_def cleanScript_def isWhiteSpace_def isLineTerminator_def


section \<open>Properties of the handlers\<close>

lemma trace_unlinkIfExists [simp]: "trace (unlinkIfExists p st) = trace st"
  by (simp add: unlinkIfExists_def)

lemma trace_unlinkAll [simp]: "trace (unlinkAll ps st) = trace st"
  unfolding unlinkAll_def by (induction ps arbitrary: st) simp_all

lemma trace_writeFile [simp]: "trace (writeFile p st) = trace st"
  by (simp add: writeFile_def)

lemma disk_unlinkIfExists [simp]: "disk (unlinkIfExists p st) = disk st - {p}"
  by (auto simp add: unlinkIfExists_def)

lemma disk_unlinkAll [simp]: "disk (unlinkAll ps st) = disk st - set ps"
  unfolding unlinkAll_def by (induction ps arbitrary: st) auto

lemma disk_writeFile [simp]: "disk (writeFile p st) = insert p (disk st)"
  by (simp add: writeFile_def)

lemma execCall_trace: "execCall w cmd st = (st', r) \<Longrightarrow> trace st' = trace st @ [ExecCall cmd]"
  by (auto simp: execCall_def split: prod.splits)

lemma execCall_error: "execCall w cmd st = (st', Inl e) \<Longrightarrow> e = MediaToolError cmd"
  by (auto simp: execCall_def split: prod.splits if_splits)

lemma buildClips_ok:
  "buildClips w ts t wd ht i fs st = (st', Inr clips) \<Longrightarrow>
   trace st' = trace st @ map ExecCall (clipCommands ts t wd ht i fs) \<and>
   clips = map outputOf (clipCommands ts t wd ht i fs)"
proof (induction fs arbitrary: i st st' clips)
  case Nil
  then show ?case by simp
next
  case (Cons f rest)
  then show ?case
    by (auto split: prod.splits sum.splits dest!: execCall_trace)
qed

lemma buildClips_fail:
  "buildClips w ts t wd ht i fs st = (st', Inl e) \<Longrightarrow>
   \<exists>k < length fs.
      trace st' = trace st @ map ExecCall (take (Suc k) (clipCommands ts t wd ht i fs))
      \<and> e = MediaToolError (clipCommands ts t wd ht i fs ! k)"
proof (induction fs arbitrary: i st st' e)
  case Nil
  then show ?case by simp
next
  case (Cons f rest)
  show ?case
  proof (cases "execCall w (CreateClip (filePath f) t wd ht (Clip ts i)) st")
    case (Pair st1 r)
    show ?thesis
    proof (cases r)
      case (Inl e1)
      with Pair Cons.prems have "st' = st1" "e = e1" by simp_all
      with Pair Inl show ?thesis
        by (auto dest: execCall_trace execCall_error intro!: exI [of _ 0])
    next
      case (Inr u)
      with Pair Cons.prems have "buildClips w ts t wd ht (Suc i) rest st1 = (st', Inl e)"
        by (auto split: prod.splits sum.splits)
      from Cons.IH [OF this] obtain k where
        k: "k < length rest"
           "trace st' = trace st1 @ map ExecCall (take (Suc k) (clipCommands ts t wd ht (Suc i) rest))"
           "e = MediaToolError (clipCommands ts t wd ht (Suc i) rest ! k)"
        by blast
      with execCall_trace [OF Pair] show ?thesis
        by (auto intro!: exI [of _ "Suc k"])
    qed
  qed
qed


lemma unlinkIfExists_eq: "unlinkIfExists p st = st\<lparr>disk := disk st - {p}\<rparr>"
  by (simp add: unlinkIfExists_def)

lemma unlinkAll_eq: "unlinkAll ps st = st\<lparr>disk := disk st - set ps\<rparr>"
  unfolding unlinkAll_def
  by (induction ps arbitrary: st) (auto simp: unlinkIfExists_eq intro!: run_state.equality)

lemma audioCommand_cases:
  "audioCommand d ts est m vol = Inr cmd \<Longrightarrow>
   cmd = VoiceOnly (VideoNoAudio ts) (Voice ts) (Final ts) \<or>
   (\<exists>f. cmd = MixMusic (VideoNoAudio ts) (Music f) (Voice ts) (volumeDecimal vol)
                 (int est - 3) (Final ts))"
  by (auto simp: audioCommand_def split: option.splits if_splits sum.splits)








lemma ceilBy15_div: "ceilBy15 n = (n + 14) div 15"
proof -
  have "\<lceil>(of_nat n :: rat) / 15\<rceil> = \<lceil>(of_int (int n) :: rat) / of_int 15\<rceil>" by simp
  also have "\<dots> = - (- int n div 15)" by (simp only: ceiling_divide_eq_div)
  also have "\<dots> = (int n + 14) div 15" by linarith
  finally have "nat \<lceil>(of_nat n :: rat) / 15\<rceil> = nat ((int n + 14) div 15)" by simp
  also have "\<dots> = (n + 14) div 15" by linarith
  finally show ?thesis unfolding ceilBy15_def .
qed

subsection \<open>Concrete runs\<close>

lemmas run_eval =
  generateVideo_def generateVideoBody_def demoRequest_def okWorld_def
  voiceOrDefault_def resolution_def execCall_def audioCommand_def Let_def
  kitchenFile_def bedroomFile_def filePath_def js_def unlinkIfExists_eq unlinkAll_eq
  writeFile_def insert_Diff_if

lemma cleanScript_specScript: "cleanScript specScript = specScript"
  by (simp add: specScript_def js_eval)

lemma estimatedDuration_specScript: "estimatedDuration specScript = 10"
  by (simp add: estimatedDuration_def ceilBy15_div specScript_def js_def)

lemma run_kitchen_bedroom:
  "generateVideo okWorld (demoRequest [kitchenFile, bedroomFile] specScript (Some (js ''none'')))
     {filePath kitchenFile, filePath bedroomFile} =
   (\<lparr>disk = {Final 1},
     trace =
       [SpeechCall specScript (js ''alloy''),
        ExecCall (CreateClip (filePath kitchenFile) 5 1920 1080 (Clip 1 0)),
        ExecCall (CreateClip (filePath bedroomFile) 5 1920 1080 (Clip 1 1)),
        ExecCall (Concat (ConcatList 1) [Clip 1 0, Clip 1 1] (VideoNoAudio 1)),
        ExecCall (VoiceOnly (VideoNoAudio 1) (Voice 1) (Final 1))]\<rparr>,
    VideoOk \<lparr>videoFile = Final 1, duration = 10\<rparr>)"
  by (simp add: run_eval cleanScript_specScript estimatedDuration_specScript)










lemma parseInt_50: "parseInt (js ''50'') = Some 50"
  by (simp add: parseInt_def js_eval digitValue_def)

lemma parseInt_undefined: "parseInt (js ''undefined'') = None"
  by (simp add: parseInt_def js_eval digitValue_def)

lemma parseInt_zero: "parseInt (js ''0'') = Some 0"
  by (simp add: parseInt_def js_eval digitValue_def)

lemma musicFileName_upbeat: "musicFileName (js ''upbeat'') = Inr (js ''upbeat.mp3'')"
  by (simp add: musicFileName_def musicFiles_def js_def)

lemma length_clipCommands [simp]: "length (clipCommands ts t wd ht i fs) = length fs"
  by (induction fs arbitrary: i) simp_all

lemma clipCommands_form:
  "cmd \<in> set (clipCommands ts t wd ht i fs) \<Longrightarrow>
   \<exists>f k. f \<in> set fs \<and> cmd = CreateClip (filePath f) t wd ht (Clip ts k) \<and> i \<le> k"
  by (induction fs arbitrary: i) (auto, fastforce)

lemma buildClips_cmds:
  assumes "buildClips w ts t wd ht i fs st = (st', r)"
  shows "\<exists>k \<le> length fs. trace st' = trace st @ map ExecCall (take k (clipCommands ts t wd ht i fs))"
proof (cases r)
  case (Inl e)
  with assms buildClips_fail [of w ts t wd ht i fs st st' e] show ?thesis
    by (metis Suc_leI)
next
  case (Inr clips)
  with assms buildClips_ok [of w ts t wd ht i fs st st' clips]
  have "trace st' = trace st @ map ExecCall (take (length fs) (clipCommands ts t wd ht i fs))"
    by (simp add: length_clipCommands)
  then show ?thesis by blast
qed

lemma generateVideoBody_trace_cmds:
  assumes "generateVideoBody w req \<lparr>disk = d, trace = []\<rparr> = (st, r)"
    and "ExecCall cmd \<in> set (trace st)"
  shows "(\<exists>f t wd ht c. cmd = CreateClip (filePath f) t wd ht c) \<or>
         (\<exists>e out. cmd = Concat (ConcatList (timestamp w)) e out) \<or>
         (\<exists>d5 est. audioCommand d5 (timestamp w) est (music req) (musicVolume req) = Inr cmd)"
proof -
  define P where "P c \<longleftrightarrow>
     (\<exists>f t wd ht cp. c = CreateClip (filePath f) t wd ht cp) \<or>
     (\<exists>e out. c = Concat (ConcatList (timestamp w)) e out) \<or>
     (\<exists>d5 est. audioCommand d5 (timestamp w) est (music req) (musicVolume req) = Inr c)" for c
  have p1: "P (CreateClip (filePath f) t wd ht cp)" for f t wd ht cp
    unfolding P_def by blast
  have p2: "P (Concat (ConcatList (timestamp w)) e out)" for e out
    unfolding P_def by blast
  have p3: "P c" if "audioCommand d5 (timestamp w) est (music req) (musicVolume req) = Inr c"
    for d5 est c
    using that unfolding P_def by blast
  have "P cmd"
    using assms
    unfolding generateVideoBody_def Let_def
    by (auto split: prod.splits sum.splits option.splits if_splits
             dest!: buildClips_cmds execCall_trace in_set_takeD clipCommands_form
             intro: p1 p2 p3)
  then show ?thesis unfolding P_def .
qed

lemma generateVideo_trace:
  "generateVideo w req d = (st, res) \<Longrightarrow>
   \<exists>st0 r. generateVideoBody w req \<lparr>disk = d, trace = []\<rparr> = (st0, r) \<and> trace st = trace st0
     \<and> res = (case r of Inr v \<Rightarrow> VideoOk v | Inl e \<Rightarrow> VideoFailed e)"
  unfolding generateVideo_def
  by (auto split: prod.splits sum.splits option.splits)

lemma generateVideo_trace_cmds:
  assumes "generateVideo w req d = (st, res)" and "ExecCall cmd \<in> set (trace st)"
  shows "(\<exists>f t wd ht c. cmd = CreateClip (filePath f) t wd ht c) \<or>
         (\<exists>e out. cmd = Concat (ConcatList (timestamp w)) e out) \<or>
         (\<exists>d5 est. audioCommand d5 (timestamp w) est (music req) (musicVolume req) = Inr cmd)"
  using assms generateVideoBody_trace_cmds generateVideo_trace
  by metis


lemma musicFileName_calm: "musicFileName (js ''calm'') = Inr (js ''calm.mp3'')"
  by (simp add: musicFileName_def musicFiles_def js_def)

lemma volumeDecimal_50: "volumeDecimal (Some (js ''50'')) = 1 / 2"
  by (simp add: volumeDecimal_def parseInt_50)

lemma run_music:
  "generateVideo okWorld (demoRequest [kitchenFile] specScript (Some (js ''upbeat'')))
     {filePath kitchenFile, Music (js ''upbeat.mp3'')} =
   (\<lparr>disk = {Final 1, Music (js ''upbeat.mp3'')},
     trace =
       [SpeechCall specScript (js ''alloy''),
        ExecCall (CreateClip (filePath kitchenFile) 10 1920 1080 (Clip 1 0)),
        ExecCall (Concat (ConcatList 1) [Clip 1 0] (VideoNoAudio 1)),
        ExecCall (MixMusic (VideoNoAudio 1) (Music (js ''upbeat.mp3'')) (Voice 1) (1 / 2) 7
                    (Final 1))]\<rparr>,
    VideoOk \<lparr>videoFile = Final 1, duration = 10\<rparr>)"
  by (simp add: generateVideo_def generateVideoBody_def demoRequest_def okWorld_def
  voiceOrDefault_def resolution_def execCall_def  Let_def audioCommand_def
  kitchenFile_def bedroomFile_def filePath_def  unlinkIfExists_eq unlinkAll_eq
  writeFile_def insert_Diff_if cleanScript_specScript estimatedDuration_specScript
      musicFileName_upbeat volumeDecimal_50)
   (auto simp add: js_def)

lemma volumeDecimal_parsed:
  "parseInt x = Some p \<Longrightarrow> p \<noteq> 0 \<Longrightarrow> volumeDecimal (Some x) = of_int p / 100"
  by (simp add: volumeDecimal_def)

lemma volumeDecimal_unparsable:
  "parseInt x = None \<Longrightarrow> volumeDecimal (Some x) = 15 / 100"
  by (simp add: volumeDecimal_def)

lemma volumeDecimal_absent: "volumeDecimal None = 15 / 100"
  by (simp add: volumeDecimal_def parseInt_undefined)


lemma trim_hello: "trim (js '' Hello '') = js ''Hello''"
  by (simp add: js_eval)

lemma trim_blank: "trim (js ''  '') = []"
  by (simp add: js_eval)

lemma generateScript_blank:
  "generateScript okWorld (scriptRequest (JString (js ''  ''))) =
     ([DraftCall (js ''kitchen: Granite counters'') (js ''real-estate'')],
      ScriptOk (JString (js ''Come and see'')))"
  by (simp add: generateScript_def trimValue_def trim_blank scriptRequest_def draftScript_def
      analysisTextOf_def okWorld_def) (simp add: js_eval)


lemma distinct_clipCommands: "distinct (clipCommands ts t wd ht i fs)"
  by (induction fs arbitrary: i) (auto dest!: clipCommands_form)

lemma audioCommand_error: "audioCommand d ts est m vol = Inl e \<Longrightarrow> e = TypeError"
  by (auto simp: audioCommand_def musicFileName_def split: option.splits if_splits sum.splits)

lemma last_take_Suc: "k < length xs \<Longrightarrow> last (take (Suc k) xs) = xs ! k"
  by (simp add: take_Suc_conv_app_nth)

lemma execCall_fail:
  "execCall w c st = (st', Inl e) \<Longrightarrow> trace st' = trace st @ [ExecCall c] \<and> e = MediaToolError c"
  by (auto simp: execCall_def split: prod.splits if_splits)

lemma execCall_ok:
  "execCall w c st = (st', Inr u) \<Longrightarrow> trace st' = trace st @ [ExecCall c]"
  by (auto simp: execCall_def split: prod.splits if_splits)

lemma generateVideoBody_failure_last:
  assumes "generateVideoBody w req \<lparr>disk = d, trace = []\<rparr> = (st, Inl (MediaToolError cmd))"
  shows "trace st \<noteq> [] \<and> last (trace st) = ExecCall cmd"
  using assms
  unfolding generateVideoBody_def Let_def
  by (auto split: prod.splits sum.splits option.splits if_splits
           dest!: buildClips_fail buildClips_ok execCall_fail execCall_ok audioCommand_error
           simp: take_Suc_conv_app_nth)

lemma generateVideoBody_synthesis_failure:
  assumes "generateVideoBody w req \<lparr>disk = d, trace = []\<rparr> = (st, Inl SynthesisError)"
  shows "\<exists>text v. trace st = [SpeechCall text v]"
  using assms
  unfolding generateVideoBody_def Let_def
  by (auto split: prod.splits sum.splits option.splits if_splits
           dest!: buildClips_fail execCall_fail audioCommand_error)

lemma distinct_clip_trace [simp]:
  "distinct (map ExecCall (take k (clipCommands ts t wd ht i fs)))"
  by (simp add: distinct_map distinct_take distinct_clipCommands inj_on_def)

lemma distinct_clip_trace_all [simp]:
  "distinct (map ExecCall (clipCommands ts t wd ht i fs))"
  by (simp add: distinct_map distinct_clipCommands inj_on_def)

lemma concat_not_clip [simp]: "Concat m e out \<notin> set (clipCommands ts t wd ht i fs)"
  by (auto dest!: clipCommands_form)

lemma audio_not_clip:
  "audioCommand d5 ts' est m vol = Inr audio \<Longrightarrow> audio \<notin> set (clipCommands ts t wd ht i fs)"
  by (auto dest!: clipCommands_form audioCommand_cases)

lemma audio_not_concat:
  "audioCommand d5 ts' est m vol = Inr audio \<Longrightarrow> audio \<noteq> Concat mf e out"
  by (auto dest!: audioCommand_cases)

lemma generateVideoBody_distinct:
  assumes "generateVideoBody w req \<lparr>disk = d, trace = []\<rparr> = (st, r)"
  shows "distinct (trace st)"
  using assms
  unfolding generateVideoBody_def Let_def
  by (auto split: prod.splits sum.splits option.splits if_splits
           dest!: buildClips_fail buildClips_ok execCall_fail execCall_ok
           dest: audio_not_clip audio_not_concat)


lemma retryLoop_done:
  "retries < attempt \<Longrightarrow> retryLoop call retries attempt le tr = (tr, None, le)"
  by (simp add: retryLoop.simps)

lemma retryLoop_at_3:
  "retryLoop call 3 3 le tr =
     (case call 3 of
        Some r \<Rightarrow> (tr @ [VisionCall 3], Some r, le)
      | None \<Rightarrow> (tr @ [VisionCall 3], None, 3))"
  by (subst retryLoop.simps) (simp add: retryLoop_done split: option.splits)

lemma retryLoop_at_2:
  "retryLoop call 3 2 le tr =
     (case call 2 of
        Some r \<Rightarrow> (tr @ [VisionCall 2], Some r, le)
      | None \<Rightarrow> retryLoop call 3 3 2 (tr @ [VisionCall 2, Wait 2000]))"
  by (subst retryLoop.simps) (simp split: option.splits)

lemma retryLoop_at_1:
  "retryLoop call 3 (Suc 0) le tr =
     (case call (Suc 0) of
        Some r \<Rightarrow> (tr @ [VisionCall (Suc 0)], Some r, le)
      | None \<Rightarrow> retryLoop call 3 2 (Suc 0) (tr @ [VisionCall (Suc 0), Wait 1000]))"
  by (subst retryLoop.simps) (simp add: numeral_2_eq_2 [symmetric] split: option.splits)

lemma retryLoop_three:
  "retryLoop call 3 (Suc 0) 0 tr =
     (case call 1 of
        Some r \<Rightarrow> (tr @ [VisionCall 1], Some r, 0)
      | None \<Rightarrow>
          (case call 2 of
             Some r \<Rightarrow> (tr @ [VisionCall 1, Wait 1000, VisionCall 2], Some r, 1)
           | None \<Rightarrow>
               (case call 3 of
                  Some r \<Rightarrow>
                    (tr @ [VisionCall 1, Wait 1000, VisionCall 2, Wait 2000, VisionCall 3],
                     Some r, 2)
                | None \<Rightarrow>
                    (tr @ [VisionCall 1, Wait 1000, VisionCall 2, Wait 2000, VisionCall 3],
                     None, 3))))"
  by (simp add: retryLoop_at_1 retryLoop_at_2 retryLoop_at_3 split: option.splits)

lemma analyzeImage_trace:
  assumes "reqFile areq = Some f" and "filePath f \<in> d" and "category areq = Some c"
  shows "trace (fst (analyzeImage w areq \<lparr>disk = d, trace = []\<rparr>)) =
           (case vision w 1 of
              Some r \<Rightarrow> [VisionCall 1]
            | None \<Rightarrow>
                (case vision w 2 of
                   Some r \<Rightarrow> [VisionCall 1, Wait 1000, VisionCall 2]
                 | None \<Rightarrow> [VisionCall 1, Wait 1000, VisionCall 2, Wait 2000, VisionCall 3]))"
    and "(snd (analyzeImage w areq \<lparr>disk = d, trace = []\<rparr>) = AnalyzeFailed (AnalysisError 3))
           = (vision w 1 = None \<and> vision w 2 = None \<and> vision w 3 = None)"
  using assms
  by (auto simp: analyzeImage_def retryLoop_three split: option.splits)

lemma generateScript_calls:
  "length (fst (generateScript w sreq)) \<le> 1"
  "snd (generateScript w sreq) = ScriptFailed DraftError \<Longrightarrow>
     \<exists>a n. fst (generateScript w sreq) = [DraftCall a n]"
  by (auto simp: generateScript_def draftScript_def trimValue_def analysisTextOf_def
           split: if_splits sum.splits option.splits jsvalue.splits)

lemma generateVoiceover_calls:
  "length (trace (fst (generateVoiceover w vreq \<lparr>disk = d, trace = []\<rparr>))) \<le> 1"
  "snd (generateVoiceover w vreq \<lparr>disk = d, trace = []\<rparr>) = VoiceoverFailed SynthesisError \<Longrightarrow>
     \<exists>t v. trace (fst (generateVoiceover w vreq \<lparr>disk = d, trace = []\<rparr>)) = [SpeechCall t v]"
  by (auto simp: generateVoiceover_def Let_def split: if_splits jsvalue.splits)

lemma generateVideo_calls:
  "distinct (trace (fst (generateVideo w req d)))"
  "snd (generateVideo w req d) = VideoFailed SynthesisError \<Longrightarrow>
     \<exists>t v. trace (fst (generateVideo w req d)) = [SpeechCall t v]"
  "snd (generateVideo w req d) = VideoFailed (MediaToolError cmd) \<Longrightarrow>
     trace (fst (generateVideo w req d)) \<noteq> [] \<and>
     last (trace (fst (generateVideo w req d))) = ExecCall cmd"
proof -
  obtain st res where run: "generateVideo w req d = (st, res)" by (cases "generateVideo w req d")
  from generateVideo_trace [OF run] obtain st0 r where
    b: "generateVideoBody w req \<lparr>disk = d, trace = []\<rparr> = (st0, r)" and t: "trace st = trace st0"
    and res: "res = (case r of Inr v \<Rightarrow> VideoOk v | Inl e \<Rightarrow> VideoFailed e)"
    by blast
  show "distinct (trace (fst (generateVideo w req d)))"
    using generateVideoBody_distinct [OF b] t run by simp
  show "\<exists>t v. trace (fst (generateVideo w req d)) = [SpeechCall t v]"
    if "snd (generateVideo w req d) = VideoFailed SynthesisError"
  proof -
    from that run res have "r = Inl SynthesisError" by (cases r) simp_all
    with b generateVideoBody_synthesis_failure t run show ?thesis by fastforce
  qed
  show "trace (fst (generateVideo w req d)) \<noteq> [] \<and>
     last (trace (fst (generateVideo w req d))) = ExecCall cmd"
    if "snd (generateVideo w req d) = VideoFailed (MediaToolError cmd)"
  proof -
    from that run res have "r = Inl (MediaToolError cmd)" by (cases r) simp_all
    with b generateVideoBody_failure_last t run show ?thesis by fastforce
  qed
qed

lemma clip_failure_run:
  "generateVideo clipFailWorld
     (demoRequest [kitchenFile, bedroomFile] specScript (Some (js ''none'')))
     {filePath kitchenFile, filePath bedroomFile} =
   (\<lparr>disk = {Clip 1 0, Voice 1},
     trace =
       [SpeechCall specScript (js ''alloy''),
        ExecCall (CreateClip (filePath kitchenFile) 5 1920 1080 (Clip 1 0)),
        ExecCall (CreateClip (filePath bedroomFile) 5 1920 1080 (Clip 1 1))]\<rparr>,
    VideoFailed (MediaToolError (CreateClip (filePath bedroomFile) 5 1920 1080 (Clip 1 1))))"
  by (simp add: clipFailWorld_def run_eval cleanScript_specScript estimatedDuration_specScript)

lemma analyze_allFail:
  "analyzeImage allFailWorld analyzeRequest \<lparr>disk = {filePath kitchenFile}, trace = []\<rparr> =
     (\<lparr>disk = {},
       trace = [VisionCall 1, Wait 1000, VisionCall 2, Wait 2000, VisionCall 3]\<rparr>,
      AnalyzeFailed (AnalysisError 3))"
  by (simp add: analyzeImage_def analyzeRequest_def allFailWorld_def retryLoop_three
      unlinkIfExists_eq)

lemma script_allFail:
  "generateScript allFailWorld (scriptRequest JUndefined) =
     ([DraftCall (js ''kitchen: Granite counters'') (js ''real-estate'')],
      ScriptFailed DraftError)"
  by (simp add: generateScript_def scriptRequest_def draftScript_def analysisTextOf_def
      allFailWorld_def) (simp add: js_def)

lemma voiceover_allFail:
  "generateVoiceover allFailWorld \<lparr>vo_script = JString (js ''Hi''), vo_voice = None\<rparr>
     \<lparr>disk = {}, trace = []\<rparr> =
     (\<lparr>disk = {}, trace = [SpeechCall (js ''Hi'') (js ''alloy'')]\<rparr>,
      VoiceoverFailed SynthesisError)"
  by (simp add: generateVoiceover_def allFailWorld_def voiceOrDefault_def Let_def js_eval)

lemma video_allFail:
  "generateVideo allFailWorld (demoRequest [kitchenFile] specScript (Some (js ''none'')))
     {filePath kitchenFile} =
     (\<lparr>disk = {}, trace = [SpeechCall specScript (js ''alloy'')]\<rparr>,
      VideoFailed SynthesisError)"
  by (simp add: generateVideo_def generateVideoBody_def demoRequest_def allFailWorld_def
      voiceOrDefault_def Let_def cleanScript_specScript unlinkAll_eq)


section \<open>Claims\<close>














text \<open>
  C7. If the music field is absent, empty or \<open>none\<close>, or the music file it selects is not
  on disk, the audio stage chooses the voiceover-only command: its inputs are the silent
  video and the voiceover, and it has no audio filter (no volume, afade or amix). And in
  every run of the handler with music absent, empty or \<open>none\<close>, whatever its outcome, no
  command that was run has a music file among its inputs or any audio filter.
\<close>

theorem voiceover_only_fallback:
  "(m = None \<or> m = Some [] \<or> m = Some (js ''none'') \<or>
      (\<exists>name f. m = Some name \<and> musicFileName name = Inr f \<and> Music f \<notin> dk)
    \<longrightarrow> audioCommand dk ts est m vol = Inr (VoiceOnly (VideoNoAudio ts) (Voice ts) (Final ts)))
   \<and> inputsOf (VoiceOnly (VideoNoAudio ts) (Voice ts) (Final ts)) = [VideoNoAudio ts, Voice ts]
   \<and> filtersOf (VoiceOnly (VideoNoAudio ts) (Voice ts) (Final ts)) = []
   \<and> ((music req = None \<or> music req = Some [] \<or> music req = Some (js ''none''))
        \<and> generateVideo w req d = (st, res) \<and> ExecCall cmd \<in> set (trace st)
       \<longrightarrow> filtersOf cmd = [] \<and> (\<forall>name. Music name \<notin> set (inputsOf cmd)))"
proof -
  have a: "m = None \<or> m = Some [] \<or> m = Some (js ''none'') \<or>
      (\<exists>name f. m = Some name \<and> musicFileName name = Inr f \<and> Music f \<notin> dk)
    \<longrightarrow> audioCommand dk ts est m vol = Inr (VoiceOnly (VideoNoAudio ts) (Voice ts) (Final ts))"
    by (auto simp: audioCommand_def)
  have b: "filtersOf cmd = [] \<and> (\<forall>name. Music name \<notin> set (inputsOf cmd))"
    if m: "music req = None \<or> music req = Some [] \<or> music req = Some (js ''none'')"
      and run: "generateVideo w req d = (st, res)" and c: "ExecCall cmd \<in> set (trace st)"
  proof -
    from generateVideo_trace_cmds [OF run c] consider
      (clip) f t wd ht c where "cmd = CreateClip (filePath f) t wd ht c"
      | (concat) e out where "cmd = Concat (ConcatList (timestamp w)) e out"
      | (audio) d5 est' where "audioCommand d5 (timestamp w) est' (music req) (musicVolume req) = Inr cmd"
      by blast
    then show ?thesis
    proof cases
      case clip
      then show ?thesis by (simp add: filePath_def)
    next
      case concat
      then show ?thesis by simp
    next
      case audio
      with m have "cmd = VoiceOnly (VideoNoAudio (timestamp w)) (Voice (timestamp w)) (Final (timestamp w))"
        by (auto simp: audioCommand_def)
      then show ?thesis by simp
    qed
  qed
  from a b show ?thesis by simp
qed

theorem voiceover_only_fallback_witness:
  "(\<exists>name f. Some (js ''calm'') = Some name \<and> musicFileName name = Inr f \<and> Music f \<notin> {})
   \<and> audioCommand {} 1 10 (Some (js ''calm'')) None
        = Inr (VoiceOnly (VideoNoAudio 1) (Voice 1) (Final 1))
   \<and> music (demoRequest [kitchenFile, bedroomFile] specScript (Some (js ''none'')))
        = Some (js ''none'')
   \<and> generateVideo okWorld (demoRequest [kitchenFile, bedroomFile] specScript (Some (js ''none'')))
        {filePath kitchenFile, filePath bedroomFile} =
       (\<lparr>disk = {Final 1},
         trace =
           [SpeechCall specScript (js ''alloy''),
            ExecCall (CreateClip (filePath kitchenFile) 5 1920 1080 (Clip 1 0)),
            ExecCall (CreateClip (filePath bedroomFile) 5 1920 1080 (Clip 1 1)),
            ExecCall (Concat (ConcatList 1) [Clip 1 0, Clip 1 1] (VideoNoAudio 1)),
            ExecCall (VoiceOnly (VideoNoAudio 1) (Voice 1) (Final 1))]\<rparr>,
        VideoOk \<lparr>videoFile = Final 1, duration = 10\<rparr>)
   \<and> filtersOf (VoiceOnly (VideoNoAudio 1) (Voice 1) (Final 1)) = []"
proof -
  let ?st = "\<lparr>disk = {Final 1},
         trace =
           [SpeechCall specScript (js ''alloy''),
            ExecCall (CreateClip (filePath kitchenFile) 5 1920 1080 (Clip 1 0)),
            ExecCall (CreateClip (filePath bedroomFile) 5 1920 1080 (Clip 1 1)),
            ExecCall (Concat (ConcatList 1) [Clip 1 0, Clip 1 1] (VideoNoAudio 1)),
            ExecCall (VoiceOnly (VideoNoAudio 1) (Voice 1) (Final 1))]\<rparr>"
  let ?req = "demoRequest [kitchenFile, bedroomFile] specScript (Some (js ''none''))"
  note t = voiceover_only_fallback [of "Some (js ''calm'')" "{}" 1 10 None ?req okWorld
      "{filePath kitchenFile, filePath bedroomFile}" ?st
      "VideoOk \<lparr>videoFile = Final 1, duration = 10\<rparr>"
      "VoiceOnly (VideoNoAudio 1) (Voice 1) (Final 1)"]
  have h1: "\<exists>name f. Some (js ''calm'') = Some name \<and> musicFileName name = Inr f \<and> Music f \<notin> {}"
    using musicFileName_calm by simp
  have m: "music ?req = Some (js ''none'')" by (simp add: demoRequest_def)
  have c: "ExecCall (VoiceOnly (VideoNoAudio 1) (Voice 1) (Final 1)) \<in> set (trace ?st)" by simp
  from t h1 have r1: "audioCommand {} 1 10 (Some (js ''calm'')) None
        = Inr (VoiceOnly (VideoNoAudio 1) (Voice 1) (Final 1))" by blast
  from t m run_kitchen_bedroom c have r2: "filtersOf (VoiceOnly (VideoNoAudio 1) (Voice 1) (Final 1)) = []"
    by blast
  show ?thesis
    by (intro conjI h1 r1 m run_kitchen_bedroom r2)
qed

text \<open>
  C9. When music is requested and its file is on disk, the audio stage chooses the mixing
  command with the music stream (input 1) at gain \<open>volumeDecimal\<close> and the voiceover (input
  2) at gain 1. The gain is the parsed percent divided by 100 when the field parses to a
  non-zero integer (50 gives exactly 1/2), and 15/100 when the field is absent or does not
  parse. Every mixing command that a run of the handler executes carries that gain.
\<close>

theorem music_gain_factor:
  "(name \<noteq> [] \<and> name \<noteq> js ''none'' \<and> musicFileName name = Inr f \<and> Music f \<in> dk \<longrightarrow>
      audioCommand dk ts est (Some name) vol =
        Inr (MixMusic (VideoNoAudio ts) (Music f) (Voice ts) (volumeDecimal vol)
               (int est - 3) (Final ts)))
   \<and> inputsOf (MixMusic v mu vo g fd out) = [v, mu, vo]
   \<and> filtersOf (MixMusic v mu vo g fd out) = [VolumeOf 1 g, AFadeOut 1 fd 3, VolumeOf 2 1, AMix 2]
   \<and> (parseInt x = Some p \<and> p \<noteq> 0 \<longrightarrow> volumeDecimal (Some x) = of_int p / 100)
   \<and> volumeDecimal (Some (js ''50'')) = 1 / 2
   \<and> (parseInt y = None \<longrightarrow> volumeDecimal (Some y) = 15 / 100)
   \<and> volumeDecimal None = 15 / 100
   \<and> (generateVideo w req d = (st, res) \<and> ExecCall (MixMusic v mu vo g fd out) \<in> set (trace st)
        \<longrightarrow> g = volumeDecimal (musicVolume req))"
proof -
  have a: "name \<noteq> [] \<and> name \<noteq> js ''none'' \<and> musicFileName name = Inr f \<and> Music f \<in> dk \<longrightarrow>
      audioCommand dk ts est (Some name) vol =
        Inr (MixMusic (VideoNoAudio ts) (Music f) (Voice ts) (volumeDecimal vol)
               (int est - 3) (Final ts))"
    by (simp add: audioCommand_def)
  have b: "g = volumeDecimal (musicVolume req)"
    if run: "generateVideo w req d = (st, res)"
      and c: "ExecCall (MixMusic v mu vo g fd out) \<in> set (trace st)"
    using generateVideo_trace_cmds [OF run c] by (auto dest!: audioCommand_cases)
  from a b volumeDecimal_parsed [of x p] volumeDecimal_unparsable [of y]
  show ?thesis
    by (simp add: volumeDecimal_50 volumeDecimal_absent)
qed

theorem music_gain_factor_witness:
  "js ''upbeat'' \<noteq> [] \<and> js ''upbeat'' \<noteq> js ''none''
   \<and> musicFileName (js ''upbeat'') = Inr (js ''upbeat.mp3'')
   \<and> Music (js ''upbeat.mp3'') \<in> {Music (js ''upbeat.mp3'')}
   \<and> audioCommand {Music (js ''upbeat.mp3'')} 1 10 (Some (js ''upbeat'')) (Some (js ''50'')) =
        Inr (MixMusic (VideoNoAudio 1) (Music (js ''upbeat.mp3'')) (Voice 1) (1 / 2) 7 (Final 1))
   \<and> parseInt (js ''50'') = Some 50 \<and> (50::int) \<noteq> 0
   \<and> volumeDecimal (Some (js ''50'')) = 50 / 100
   \<and> parseInt (js ''undefined'') = None
   \<and> volumeDecimal (Some (js ''undefined'')) = 15 / 100
   \<and> generateVideo okWorld (demoRequest [kitchenFile] specScript (Some (js ''upbeat'')))
        {filePath kitchenFile, Music (js ''upbeat.mp3'')} =
      (\<lparr>disk = {Final 1, Music (js ''upbeat.mp3'')},
        trace =
          [SpeechCall specScript (js ''alloy''),
           ExecCall (CreateClip (filePath kitchenFile) 10 1920 1080 (Clip 1 0)),
           ExecCall (Concat (ConcatList 1) [Clip 1 0] (VideoNoAudio 1)),
           ExecCall (MixMusic (VideoNoAudio 1) (Music (js ''upbeat.mp3'')) (Voice 1) (1 / 2) 7
                       (Final 1))]\<rparr>,
       VideoOk \<lparr>videoFile = Final 1, duration = 10\<rparr>)
   \<and> (1 / 2 :: rat) = volumeDecimal (musicVolume
          (demoRequest [kitchenFile] specScript (Some (js ''upbeat''))))"
proof -
  let ?st = "\<lparr>disk = {Final 1, Music (js ''upbeat.mp3'')},
        trace =
          [SpeechCall specScript (js ''alloy''),
           ExecCall (CreateClip (filePath kitchenFile) 10 1920 1080 (Clip 1 0)),
           ExecCall (Concat (ConcatList 1) [Clip 1 0] (VideoNoAudio 1)),
           ExecCall (MixMusic (VideoNoAudio 1) (Music (js ''upbeat.mp3'')) (Voice 1) (1 / 2) 7
                       (Final 1))]\<rparr>"
  let ?req = "demoRequest [kitchenFile] specScript (Some (js ''upbeat''))"
  note t = music_gain_factor [of "js ''upbeat''" "js ''upbeat.mp3''" "{Music (js ''upbeat.mp3'')}"
      1 10 "Some (js ''50'')" "VideoNoAudio 1" "Music (js ''upbeat.mp3'')" "Voice 1" "1 / 2" 7
      "Final 1" "js ''50''" 50 "js ''undefined''" okWorld ?req
      "{filePath kitchenFile, Music (js ''upbeat.mp3'')}" ?st
      "VideoOk \<lparr>videoFile = Final 1, duration = 10\<rparr>"]
  have n1: "js ''upbeat'' \<noteq> []" and n2: "js ''upbeat'' \<noteq> js ''none''"
    by (simp_all add: js_def)
  have i: "Music (js ''upbeat.mp3'') \<in> {Music (js ''upbeat.mp3'')}" by simp
  have z: "(50::int) \<noteq> 0" by simp
  have c: "ExecCall (MixMusic (VideoNoAudio 1) (Music (js ''upbeat.mp3'')) (Voice 1) (1 / 2) 7
                       (Final 1)) \<in> set (trace ?st)" by simp
  from t n1 n2 musicFileName_upbeat i
  have r1: "audioCommand {Music (js ''upbeat.mp3'')} 1 10 (Some (js ''upbeat'')) (Some (js ''50'')) =
        Inr (MixMusic (VideoNoAudio 1) (Music (js ''upbeat.mp3'')) (Voice 1) (1 / 2) 7 (Final 1))"
    by (simp add: volumeDecimal_50)
  from t parseInt_50 z have r2: "volumeDecimal (Some (js ''50'')) = 50 / 100" by simp
  from t parseInt_undefined have r3: "volumeDecimal (Some (js ''undefined'')) = 15 / 100" by blast
  from t run_music c have r4: "(1 / 2 :: rat) = volumeDecimal (musicVolume ?req)" by blast
  show ?thesis
    by (intro conjI n1 n2 musicFileName_upbeat i r1 parseInt_50 z r2 parseInt_undefined r3
        run_music r4)
qed


text \<open>
  C10. For every request to the script handler whose userScript is a string that is not
  empty after trimming, the handler answers with exactly that string and makes no drafting
  call. The drafting call is made only when userScript is falsy (absent, null, false, 0
  or the empty string) or a string that is blank after trimming.
\<close>

theorem userScript_passthrough:
  "(userScript req = JString s \<and> trim s \<noteq> [] \<longrightarrow>
      generateScript w req = ([], ScriptOk (JString s)))
   \<and> (DraftCall a n \<in> set (fst (generateScript w req)) \<longrightarrow>
        \<not> truthy (userScript req) \<or> (\<exists>s'. userScript req = JString s' \<and> trim s' = []))"
proof -
  have 1: "generateScript w req = ([], ScriptOk (JString s))"
    if "userScript req = JString s" "trim s \<noteq> []"
  proof -
    from that have "s \<noteq> []" by (auto simp: trim_def)
    with that show ?thesis by (simp add: generateScript_def trimValue_def)
  qed
  have 2: "\<not> truthy (userScript req) \<or> (\<exists>s'. userScript req = JString s' \<and> trim s' = [])"
    if "DraftCall a n \<in> set (fst (generateScript w req))"
    using that
    by (cases "userScript req")
       (auto simp: generateScript_def trimValue_def split: if_splits)
  from 1 2 show ?thesis by blast
qed

theorem userScript_passthrough_witness:
  "userScript (scriptRequest (JString (js '' Hello ''))) = JString (js '' Hello '')
   \<and> trim (js '' Hello '') \<noteq> []
   \<and> generateScript okWorld (scriptRequest (JString (js '' Hello '')))
        = ([], ScriptOk (JString (js '' Hello '')))
   \<and> DraftCall (js ''kitchen: Granite counters'') (js ''real-estate'')
        \<in> set (fst (generateScript okWorld (scriptRequest (JString (js ''  '')))))
   \<and> (\<exists>s'. userScript (scriptRequest (JString (js ''  ''))) = JString s' \<and> trim s' = [])"
proof -
  have u: "userScript (scriptRequest (JString (js '' Hello ''))) = JString (js '' Hello '')"
    by (simp add: scriptRequest_def)
  have n: "trim (js '' Hello '') \<noteq> []"
    by (simp add: trim_hello) (simp add: js_def)
  have c: "DraftCall (js ''kitchen: Granite counters'') (js ''real-estate'')
        \<in> set (fst (generateScript okWorld (scriptRequest (JString (js ''  '')))))"
    by (simp add: generateScript_blank)
  have t: "truthy (userScript (scriptRequest (JString (js ''  ''))))"
    by (simp add: scriptRequest_def js_def)
  from userScript_passthrough [of "scriptRequest (JString (js '' Hello ''))" "js '' Hello ''" okWorld] u n
  have r1: "generateScript okWorld (scriptRequest (JString (js '' Hello '')))
        = ([], ScriptOk (JString (js '' Hello '')))" by blast
  from userScript_passthrough [of "scriptRequest (JString (js ''  ''))" _ okWorld
      "js ''kitchen: Granite counters''" "js ''real-estate''"] c t
  have r2: "\<exists>s'. userScript (scriptRequest (JString (js ''  ''))) = JString s' \<and> trim s' = []"
    by blast
  show ?thesis by (intro conjI u n r1 c r2)
qed


text \<open>
  C1. The claim: when a run fails after files were created, the error path deletes every
  temporary file of the run and every uploaded image. The code does the second only. Here
  ffmpeg fails on the second of two clips: the catch block unlinks the two uploaded
  images, and the voiceover file and the first clip stay on disk.
\<close>

theorem clip_failure_leaves_temp_files:
  "generateVideo clipFailWorld
     (demoRequest [kitchenFile, bedroomFile] specScript (Some (js ''none'')))
     {filePath kitchenFile, filePath bedroomFile} =
   (\<lparr>disk = {Clip 1 0, Voice 1},
     trace =
       [SpeechCall specScript (js ''alloy''),
        ExecCall (CreateClip (filePath kitchenFile) 5 1920 1080 (Clip 1 0)),
        ExecCall (CreateClip (filePath bedroomFile) 5 1920 1080 (Clip 1 1))]\<rparr>,
    VideoFailed (MediaToolError (CreateClip (filePath bedroomFile) 5 1920 1080 (Clip 1 1))))"
  by (rule clip_failure_run)



text \<open>
  C8, as stated, fails: there is no wait of 3 seconds. When all three attempts of the
  vision call fail, the handler waits 1 second after the first and 2 seconds after the
  second, and fails the request right after the third.
\<close>

theorem no_wait_after_third_attempt:
  "analyzeImage allFailWorld analyzeRequest \<lparr>disk = {filePath kitchenFile}, trace = []\<rparr> =
     (\<lparr>disk = {},
       trace = [VisionCall 1, Wait 1000, VisionCall 2, Wait 2000, VisionCall 3]\<rparr>,
      AnalyzeFailed (AnalysisError 3)) \<and>
   Wait 3000 \<notin> set (trace (fst (analyzeImage allFailWorld analyzeRequest
                        \<lparr>disk = {filePath kitchenFile}, trace = []\<rparr>)))"
  by (simp add: analyze_allFail)

text \<open>
  C8, amended. The vision handler makes at most 3 attempts, with a wait of 1 second after
  a failed first attempt and of 2 seconds after a failed second attempt, and no wait after
  the third; the request fails with the error of the third attempt exactly when all three
  fail. No other stage is retried: the script handler makes at most one drafting call and
  the voiceover handler at most one speech call, a failed call being the only one in the
  trace; in the video handler no call occurs twice in the trace, a failed speech call is
  the only call of the run, and a failed ffmpeg command is the last call of the run.
\<close>

theorem retry_only_for_vision:
  "(reqFile areq = Some f \<and> filePath f \<in> d \<and> category areq = Some c \<longrightarrow>
      trace (fst (analyzeImage w areq \<lparr>disk = d, trace = []\<rparr>)) =
        (case vision w 1 of
           Some r \<Rightarrow> [VisionCall 1]
         | None \<Rightarrow>
             (case vision w 2 of
                Some r \<Rightarrow> [VisionCall 1, Wait 1000, VisionCall 2]
              | None \<Rightarrow> [VisionCall 1, Wait 1000, VisionCall 2, Wait 2000, VisionCall 3]))
      \<and> (snd (analyzeImage w areq \<lparr>disk = d, trace = []\<rparr>) = AnalyzeFailed (AnalysisError 3))
           = (vision w 1 = None \<and> vision w 2 = None \<and> vision w 3 = None))
   \<and> length (fst (generateScript w sreq)) \<le> 1
   \<and> (snd (generateScript w sreq) = ScriptFailed DraftError \<longrightarrow>
        (\<exists>a n. fst (generateScript w sreq) = [DraftCall a n]))
   \<and> length (trace (fst (generateVoiceover w vreq \<lparr>disk = d, trace = []\<rparr>))) \<le> 1
   \<and> (snd (generateVoiceover w vreq \<lparr>disk = d, trace = []\<rparr>) = VoiceoverFailed SynthesisError \<longrightarrow>
        (\<exists>t v. trace (fst (generateVoiceover w vreq \<lparr>disk = d, trace = []\<rparr>)) = [SpeechCall t v]))
   \<and> distinct (trace (fst (generateVideo w req d)))
   \<and> (snd (generateVideo w req d) = VideoFailed SynthesisError \<longrightarrow>
        (\<exists>t v. trace (fst (generateVideo w req d)) = [SpeechCall t v]))
   \<and> (snd (generateVideo w req d) = VideoFailed (MediaToolError cmd) \<longrightarrow>
        trace (fst (generateVideo w req d)) \<noteq> [] \<and>
        last (trace (fst (generateVideo w req d))) = ExecCall cmd)"
  using analyzeImage_trace [of areq f d c w]
    generateScript_calls(1) [of w sreq] generateScript_calls(2) [of w sreq]
    generateVoiceover_calls(1) [of w vreq d] generateVoiceover_calls(2) [of w vreq d]
    generateVideo_calls(1) [of w req d] generateVideo_calls(2) [of w req d]
    generateVideo_calls(3) [of w req d cmd]
  by blast

theorem retry_only_for_vision_witness:
  "reqFile analyzeRequest = Some kitchenFile
   \<and> filePath kitchenFile \<in> {filePath kitchenFile}
   \<and> category analyzeRequest = Some (js ''kitchen'')
   \<and> trace (fst (analyzeImage allFailWorld analyzeRequest
                  \<lparr>disk = {filePath kitchenFile}, trace = []\<rparr>)) =
        [VisionCall 1, Wait 1000, VisionCall 2, Wait 2000, VisionCall 3]
   \<and> snd (generateScript allFailWorld (scriptRequest JUndefined)) = ScriptFailed DraftError
   \<and> (\<exists>a n. fst (generateScript allFailWorld (scriptRequest JUndefined)) = [DraftCall a n])
   \<and> snd (generateVoiceover allFailWorld \<lparr>vo_script = JString (js ''Hi''), vo_voice = None\<rparr>
            \<lparr>disk = {filePath kitchenFile}, trace = []\<rparr>) = VoiceoverFailed SynthesisError
   \<and> (\<exists>t v. trace (fst (generateVoiceover allFailWorld
                  \<lparr>vo_script = JString (js ''Hi''), vo_voice = None\<rparr>
                  \<lparr>disk = {filePath kitchenFile}, trace = []\<rparr>)) = [SpeechCall t v])
   \<and> snd (generateVideo allFailWorld (demoRequest [kitchenFile] specScript (Some (js ''none'')))
            {filePath kitchenFile}) = VideoFailed SynthesisError
   \<and> (\<exists>t v. trace (fst (generateVideo allFailWorld
                  (demoRequest [kitchenFile] specScript (Some (js ''none'')))
                  {filePath kitchenFile})) = [SpeechCall t v])
   \<and> snd (generateVideo clipFailWorld
            (demoRequest [kitchenFile, bedroomFile] specScript (Some (js ''none'')))
            {filePath kitchenFile, filePath bedroomFile}) =
        VideoFailed (MediaToolError (CreateClip (filePath bedroomFile) 5 1920 1080 (Clip 1 1)))
   \<and> last (trace (fst (generateVideo clipFailWorld
            (demoRequest [kitchenFile, bedroomFile] specScript (Some (js ''none'')))
            {filePath kitchenFile, filePath bedroomFile}))) =
        ExecCall (CreateClip (filePath bedroomFile) 5 1920 1080 (Clip 1 1))"
proof -
  note a = retry_only_for_vision [of analyzeRequest kitchenFile "{filePath kitchenFile}"
      "js ''kitchen''" allFailWorld "scriptRequest JUndefined"
      "\<lparr>vo_script = JString (js ''Hi''), vo_voice = None\<rparr>"
      "demoRequest [kitchenFile] specScript (Some (js ''none''))"]
  note b = retry_only_for_vision [of _ _ "{filePath kitchenFile, filePath bedroomFile}" _
      clipFailWorld _ _ "demoRequest [kitchenFile, bedroomFile] specScript (Some (js ''none''))"
      "CreateClip (filePath bedroomFile) 5 1920 1080 (Clip 1 1)"]
  have h1: "reqFile analyzeRequest = Some kitchenFile"
    and h3: "category analyzeRequest = Some (js ''kitchen'')"
    by (simp_all add: analyzeRequest_def)
  have h2: "filePath kitchenFile \<in> {filePath kitchenFile}" by simp
  have v: "vision allFailWorld 1 = None" "vision allFailWorld 2 = None"
    by (simp_all add: allFailWorld_def)
  from a h1 h2 h3 v
  have r1: "trace (fst (analyzeImage allFailWorld analyzeRequest
                  \<lparr>disk = {filePath kitchenFile}, trace = []\<rparr>)) =
        [VisionCall 1, Wait 1000, VisionCall 2, Wait 2000, VisionCall 3]"
    by simp
  have s: "snd (generateScript allFailWorld (scriptRequest JUndefined)) = ScriptFailed DraftError"
    by (simp add: script_allFail)
  from a s have r2: "\<exists>a n. fst (generateScript allFailWorld (scriptRequest JUndefined)) = [DraftCall a n]"
    by blast
  have vo0: "generateVoiceover allFailWorld \<lparr>vo_script = JString (js ''Hi''), vo_voice = None\<rparr>
            \<lparr>disk = {filePath kitchenFile}, trace = []\<rparr> =
        (\<lparr>disk = {filePath kitchenFile}, trace = [SpeechCall (js ''Hi'') (js ''alloy'')]\<rparr>,
         VoiceoverFailed SynthesisError)"
    by (simp add: generateVoiceover_def allFailWorld_def voiceOrDefault_def Let_def js_eval)
  then have vo: "snd (generateVoiceover allFailWorld \<lparr>vo_script = JString (js ''Hi''), vo_voice = None\<rparr>
            \<lparr>disk = {filePath kitchenFile}, trace = []\<rparr>) = VoiceoverFailed SynthesisError"
    by simp
  from a vo have r3: "\<exists>t v. trace (fst (generateVoiceover allFailWorld
                  \<lparr>vo_script = JString (js ''Hi''), vo_voice = None\<rparr>
                  \<lparr>disk = {filePath kitchenFile}, trace = []\<rparr>)) = [SpeechCall t v]"
    by blast
  have vi: "snd (generateVideo allFailWorld (demoRequest [kitchenFile] specScript (Some (js ''none'')))
            {filePath kitchenFile}) = VideoFailed SynthesisError"
    by (simp add: video_allFail)
  from a vi have r4: "\<exists>t v. trace (fst (generateVideo allFailWorld
                  (demoRequest [kitchenFile] specScript (Some (js ''none'')))
                  {filePath kitchenFile})) = [SpeechCall t v]"
    by blast
  have cf: "snd (generateVideo clipFailWorld
            (demoRequest [kitchenFile, bedroomFile] specScript (Some (js ''none'')))
            {filePath kitchenFile, filePath bedroomFile}) =
        VideoFailed (MediaToolError (CreateClip (filePath bedroomFile) 5 1920 1080 (Clip 1 1)))"
    by (simp add: clip_failure_run)
  from b cf have r5: "last (trace (fst (generateVideo clipFailWorld
            (demoRequest [kitchenFile, bedroomFile] specScript (Some (js ''none'')))
            {filePath kitchenFile, filePath bedroomFile}))) =
        ExecCall (CreateClip (filePath bedroomFile) 5 1920 1080 (Clip 1 1))"
    by blast
  show ?thesis
    by (intro conjI h1 h2 h3 r1 s r2 vo r3 vi r4 cf r5)
qed


end
